theory Spec2Isabelle
  imports Complex_Main
begin

section \<open>Data model: two-dimensional arrays\<close>

text \<open>
  The functions of \<^verbatim>\<open>src/features/graph_construction.py\<close> work on two-dimensional
  numpy arrays. An array carries its shape (\<^verbatim>\<open>mat.shape[0]\<close>, \<^verbatim>\<open>mat.shape[1]\<close>) and its
  entries, stored here row by row. The shape is a field of its own, so that an array
  with no rows and some columns is still a value. Entries are modelled as real
  numbers: the arithmetic of the model is exact, there is no rounding and no NaN.
\<close>

record 'a ndarray =
  shape0 :: nat
  shape1 :: nat
  data :: "'a list list"

definition wf_ndarray :: "'a ndarray \<Rightarrow> bool" where
  "wf_ndarray a \<longleftrightarrow>
     length (data a) = shape0 a \<and> list_all (\<lambda>r. length r = shape1 a) (data a)"

text \<open>\<^verbatim>\<open>a[i, j]\<close> for indices inside the shape.\<close>

definition entry :: "'a ndarray \<Rightarrow> nat \<Rightarrow> nat \<Rightarrow> 'a" where
  "entry a i j = data a ! i ! j"

text \<open>The array of shape \<open>(r, c)\<close> whose entry \<open>[i, j]\<close> is \<open>f i j\<close>.\<close>

definition fromfunction :: "nat \<Rightarrow> nat \<Rightarrow> (nat \<Rightarrow> nat \<Rightarrow> 'a) \<Rightarrow> 'a ndarray" where
  "fromfunction r c f =
     \<lparr>shape0 = r, shape1 = c, data = map (\<lambda>i. map (f i) [0..<c]) [0..<r]\<rparr>"

text \<open>An entry-wise operation (\<^verbatim>\<open>np.abs\<close>, \<^verbatim>\<open>np.ceil\<close>, \<^verbatim>\<open>/2\<close>, \<^verbatim>\<open>~\<close>) keeps the shape.\<close>

definition map_nd :: "('a \<Rightarrow> 'b) \<Rightarrow> 'a ndarray \<Rightarrow> 'b ndarray" where
  "map_nd f a = \<lparr>shape0 = shape0 a, shape1 = shape1 a, data = map (map f) (data a)\<rparr>"

text \<open>\<^verbatim>\<open>mat.transpose()\<close>: shape \<open>(c, r)\<close>, entry \<open>[i, j]\<close> is \<open>mat[j, i]\<close>.\<close>

definition transpose_nd :: "'a ndarray \<Rightarrow> 'a ndarray" where
  "transpose_nd a = fromfunction (shape1 a) (shape0 a) (\<lambda>i j. entry a j i)"

text \<open>
  \<^verbatim>\<open>a + b\<close> and \<^verbatim>\<open>a == b\<close> for two arrays of the same shape (the source applies them
  to a square matrix and its transpose only, after the shape check).
\<close>

definition np_add :: "real ndarray \<Rightarrow> real ndarray \<Rightarrow> real ndarray" where
  "np_add a b = fromfunction (shape0 a) (shape1 a) (\<lambda>i j. entry a i j + entry b i j)"

definition np_eq :: "real ndarray \<Rightarrow> real ndarray \<Rightarrow> bool ndarray" where
  "np_eq a b = fromfunction (shape0 a) (shape1 a) (\<lambda>i j. entry a i j = entry b i j)"

definition np_div :: "real ndarray \<Rightarrow> real \<Rightarrow> real ndarray" where
  "np_div a c = map_nd (\<lambda>x. x / c) a"

definition np_ceil :: "real ndarray \<Rightarrow> real ndarray" where
  "np_ceil a = map_nd (\<lambda>x. of_int \<lceil>x\<rceil>) a"

definition np_abs :: "real ndarray \<Rightarrow> real ndarray" where
  "np_abs a = map_nd abs a"

definition np_not :: "bool ndarray \<Rightarrow> bool ndarray" where
  "np_not a = map_nd Not a"

text \<open>\<^verbatim>\<open>b.all()\<close>\<close>

definition np_all :: "bool ndarray \<Rightarrow> bool" where
  "np_all b = list_all (list_all id) (data b)"

text \<open>\<^verbatim>\<open>np.unique(mat)\<close>: the sorted distinct values of the flattened array.\<close>

definition np_unique :: "real ndarray \<Rightarrow> real list" where
  "np_unique a = sort (remdups (concat (data a)))"

text \<open>\<^verbatim>\<open>m[:, j]\<close> and \<^verbatim>\<open>m[i, :]\<close>\<close>

definition column :: "'a ndarray \<Rightarrow> nat \<Rightarrow> 'a list" where
  "column a j = map (\<lambda>i. entry a i j) [0..<shape0 a]"

definition row :: "'a ndarray \<Rightarrow> nat \<Rightarrow> 'a list" where
  "row a i = map (\<lambda>j. entry a i j) [0..<shape1 a]"

text \<open>
  \<^verbatim>\<open>a[mask] = v\<close>: a boolean mask of the same shape selects the entries that are
  overwritten; the model returns the new array.
\<close>

definition assign_where :: "'a ndarray \<Rightarrow> bool ndarray \<Rightarrow> 'a \<Rightarrow> 'a ndarray" where
  "assign_where a msk v =
     fromfunction (shape0 a) (shape1 a) (\<lambda>i j. if entry msk i j then v else entry a i j)"

text \<open>
  \<^verbatim>\<open>a[:, j][idx] = v\<close>: the column slice is a view of \<open>a\<close>, so the assignment through
  the index list \<open>idx\<close> writes \<open>a[r, j]\<close> for every \<open>r\<close> in \<open>idx\<close>.
\<close>

definition assign_column :: "'a ndarray \<Rightarrow> nat \<Rightarrow> nat list \<Rightarrow> 'a \<Rightarrow> 'a ndarray" where
  "assign_column a j idx v =
     fromfunction (shape0 a) (shape1 a)
       (\<lambda>r c. if c = j \<and> r \<in> set idx then v else entry a r c)"

text \<open>\<^verbatim>\<open>np.fill_diagonal(a, v)\<close>\<close>

definition fill_diagonal :: "'a ndarray \<Rightarrow> 'a \<Rightarrow> 'a ndarray" where
  "fill_diagonal a v =
     fromfunction (shape0 a) (shape1 a) (\<lambda>i j. if i = j then v else entry a i j)"

text \<open>
  The Python slice \<^verbatim>\<open>xs[-n:]\<close> for \<open>n > 0\<close>: the last \<open>n\<close> elements, the whole list
  when it has fewer.
\<close>

definition last_n :: "nat \<Rightarrow> 'a list \<Rightarrow> 'a list" where
  "last_n n xs = drop (length xs - n) xs"

text \<open>
  \<^verbatim>\<open>np.quantile(xs, q)\<close> with numpy's default linear interpolation: in the sorted
  values, the position \<open>q * (n - 1)\<close> lies between two neighbours and the result
  interpolates between them.
\<close>

definition np_quantile :: "real list \<Rightarrow> real \<Rightarrow> real" where
  "np_quantile xs q =
     (let s = sort xs;
          h = q * real (length xs - 1);
          lo = nat \<lfloor>h\<rfloor>;
          hi = min (lo + 1) (length xs - 1)
      in s ! lo + (h - real lo) * (s ! hi - s ! lo))"

text \<open>\<^verbatim>\<open>np.quantile(mat, q, axis=0)\<close>: one value per column; \<^verbatim>\<open>axis=1\<close>: one per row.\<close>

definition quantile_axis0 :: "real ndarray \<Rightarrow> real \<Rightarrow> real list" where
  "quantile_axis0 a q = map (\<lambda>j. np_quantile (column a j) q) [0..<shape1 a]"

definition quantile_axis1 :: "real ndarray \<Rightarrow> real \<Rightarrow> real list" where
  "quantile_axis1 a q = map (\<lambda>i. np_quantile (row a i) q) [0..<shape0 a]"

section \<open>Errors\<close>

text \<open>
  Every failure of the module is a Python \<^verbatim>\<open>ValueError\<close>; the message tells the shape
  error from the range error.
\<close>

datatype error = ValueError string

definition ShapeError :: error where
  "ShapeError = ValueError ''Adjacency matrix must be square.''"

definition RangeError :: error where
  "RangeError = ValueError ''k must be in range [1,n_nodes)''"

section \<open>The Symmetrizer\<close>

definition make_undirected :: "real ndarray \<Rightarrow> error + real ndarray" where
  "make_undirected mat =
     (if \<not> (shape0 mat = shape1 mat) then Inl ShapeError
      else
        let sym = np_div (np_add mat (transpose_nd mat)) 2 in
        if length (np_unique mat) = 2 then Inr (np_ceil sym)
        else Inr sym)"

section \<open>The Degree-Rank kNN Builder\<close>

text \<open>
  \<^verbatim>\<open>m[:, i].argsort()\<close> is numpy's routine; its default sort is not stable, so the
  order of equal keys is not fixed by the source. The builder takes the routine as its
  first argument. \<open>valid_argsort\<close> is what numpy promises of it: the result lists every
  index once, in an order that sorts the values. \<open>argsort_stable\<close> is one such routine
  (equal keys keep their index order).
\<close>

definition valid_argsort :: "(real list \<Rightarrow> nat list) \<Rightarrow> bool" where
  "valid_argsort argsort \<longleftrightarrow>
     (\<forall>xs. distinct (argsort xs) \<and> set (argsort xs) = {..<length xs}
         \<and> sorted (map (\<lambda>i. xs ! i) (argsort xs)))"

definition argsort_stable :: "real list \<Rightarrow> nat list" where
  "argsort_stable xs = sort_key (\<lambda>i. xs ! i) [0..<length xs]"

text \<open>One round of the loop over the columns: column \<open>i\<close> of the mask gets its neighbours.\<close>

definition knn_mask_step ::
  "(real list \<Rightarrow> nat list) \<Rightarrow> real ndarray \<Rightarrow> int \<Rightarrow> nat \<Rightarrow> bool ndarray \<Rightarrow> bool ndarray" where
  "knn_mask_step argsort m k i msk =
     (let sorted_ind = argsort (column m i);
          neighbours = last_n (nat (k + 1)) sorted_ind
      in assign_column msk i neighbours True)"

definition knn_mask :: "(real list \<Rightarrow> nat list) \<Rightarrow> real ndarray \<Rightarrow> int \<Rightarrow> nat \<Rightarrow> bool ndarray" where
  "knn_mask argsort m k n =
     fold (knn_mask_step argsort m k) [0..<n] (fromfunction n n (\<lambda>i j. False))"

definition knn_graph ::
  "(real list \<Rightarrow> nat list) \<Rightarrow> real ndarray \<Rightarrow> int \<Rightarrow> bool \<Rightarrow> bool \<Rightarrow> error + real ndarray" where
  "knn_graph argsort mat k selfloops symmetric =
     (if \<not> (shape0 mat = shape1 mat) then Inl ShapeError
      else
        let dim = shape0 mat in
        if k \<le> 0 \<or> int dim \<le> k then Inl RangeError
        else
          let m = np_abs mat;
              mask = knn_mask argsort m k dim;
              adj = assign_where mat (np_not mask) 0;
              adj = (if \<not> selfloops then fill_diagonal adj 0 else adj)
          in if symmetric then make_undirected adj else Inr adj)"

section \<open>The Quantile kNN Builder\<close>

text \<open>
  \<^verbatim>\<open>quantile_h[:, np.newaxis]\<close> has shape \<open>(dim, 1)\<close>: compared with the matrix it is
  broadcast along the rows, so entry \<open>[i, j]\<close> meets \<open>quantile_h[i]\<close>.
  \<^verbatim>\<open>quantile_v[np.newaxis, :]\<close> has shape \<open>(1, dim)\<close>: entry \<open>[i, j]\<close> meets
  \<open>quantile_v[j]\<close>.
\<close>

definition knn_graph_quantile ::
  "real ndarray \<Rightarrow> bool \<Rightarrow> int \<Rightarrow> bool \<Rightarrow> error + real ndarray" where
  "knn_graph_quantile mat0 self_loops k symmetric =
     (if \<not> (shape0 mat0 = shape1 mat0) then Inl ShapeError
      else
        let dim = shape0 mat0 in
        if k \<le> 0 \<or> int dim \<le> k then Inl RangeError
        else
          let is_directed = (\<not> np_all (np_eq mat0 (transpose_nd mat0)));
              mat = np_abs mat0;
              adj = mat;
              q = (real dim - real_of_int k - 1) / real dim;
              quantile_h = quantile_axis0 mat q;
              mask_not_neighbours =
                fromfunction dim dim (\<lambda>i j. entry mat i j < quantile_h ! i);
              mask_not_neighbours =
                (if is_directed then
                   let quantile_v = quantile_axis1 mat q in
                   fromfunction dim dim
                     (\<lambda>i j. entry mask_not_neighbours i j \<and> entry adj i j < quantile_v ! j)
                 else mask_not_neighbours);
              adj = assign_where adj mask_not_neighbours 0;
              adj = (if \<not> self_loops then fill_diagonal adj 0 else adj)
          in if symmetric then make_undirected adj else Inr adj)"

text \<open>
  The rows kept in column \<open>j\<close>: the last \<open>k + 1\<close> indices of the argsort of the
  magnitudes of that column.
\<close>

definition neighbours :: "(real list \<Rightarrow> nat list) \<Rightarrow> real ndarray \<Rightarrow> int \<Rightarrow> nat \<Rightarrow> nat set" where
  "neighbours argsort mat k j = set (last_n (nat (k + 1)) (argsort (column (np_abs mat) j)))"

section \<open>Example inputs\<close>

definition example_3x4 :: "real ndarray" where
  "example_3x4 =
     \<lparr>shape0 = 3, shape1 = 4, data = [[1, 2, 3, 4], [5, 6, 7, 8], [9, 10, 11, 12]]\<rparr>"

definition example_5x5 :: "real ndarray" where
  "example_5x5 =
     \<lparr>shape0 = 5, shape1 = 5,
      data = [[1, -2, 3, 4, 5], [6, 7, -8, 9, 10], [11, 12, 13, 14, 15],
              [16, 17, 18, -19, 20], [21, 22, 23, 24, 25]]\<rparr>"

definition example_binary :: "real ndarray" where
  "example_binary =
     \<lparr>shape0 = 4, shape1 = 4,
      data = [[0, 1, 0, 0], [0, 0, 1, 0], [0, 1, 0, 1], [1, 0, 1, 0]]\<rparr>"

definition example_sym :: "real ndarray" where
  "example_sym =
     \<lparr>shape0 = 3, shape1 = 3, data = [[1, 2, 3], [2, 10, 10], [3, 10, 10]]\<rparr>"

text \<open>What \<open>knn_graph_quantile\<close> returns on \<open>example_sym\<close> with \<open>k = 1\<close>, self-loops kept, no symmetrization.\<close>

definition example_sym_quantile :: "real ndarray" where
  "example_sym_quantile =
     \<lparr>shape0 = 3, shape1 = 3, data = [[0, 2, 3], [0, 10, 10], [0, 10, 10]]\<rparr>"

text \<open>
  What the claimed rule (each entry against the quantile of its own column) gives on
  \<open>example_sym\<close>, and what \<open>knn_graph\<close> returns there with the same arguments.
\<close>

definition example_sym_by_column :: "real ndarray" where
  "example_sym_by_column =
     \<lparr>shape0 = 3, shape1 = 3, data = [[0, 0, 0], [2, 10, 10], [3, 10, 10]]\<rparr>"

section \<open>Arrays built from their entries\<close>

lemma shape0_fromfunction [simp]: "shape0 (fromfunction r c f) = r"
  by (simp add: fromfunction_def)

lemma shape1_fromfunction [simp]: "shape1 (fromfunction r c f) = c"
  by (simp add: fromfunction_def)

lemma wf_fromfunction [simp]: "wf_ndarray (fromfunction r c f)"
  by (simp add: wf_ndarray_def fromfunction_def list_all_iff)

lemma entry_fromfunction [simp]:
  "i < r \<Longrightarrow> j < c \<Longrightarrow> entry (fromfunction r c f) i j = f i j"
  by (simp add: entry_def fromfunction_def)

lemma shape0_map_nd [simp]: "shape0 (map_nd f a) = shape0 a"
  by (simp add: map_nd_def)

lemma shape1_map_nd [simp]: "shape1 (map_nd f a) = shape1 a"
  by (simp add: map_nd_def)

lemma wf_map_nd [simp]: "wf_ndarray a \<Longrightarrow> wf_ndarray (map_nd f a)"
  by (simp add: wf_ndarray_def map_nd_def list_all_iff)

lemma entry_map_nd [simp]:
  "wf_ndarray a \<Longrightarrow> i < shape0 a \<Longrightarrow> j < shape1 a \<Longrightarrow>
     entry (map_nd f a) i j = f (entry a i j)"
  by (simp add: entry_def map_nd_def wf_ndarray_def list_all_length)

lemma map_nd_fromfunction:
  "map_nd g (fromfunction r c f) = fromfunction r c (\<lambda>i j. g (f i j))"
  by (simp add: map_nd_def fromfunction_def comp_def)

lemma fromfunction_cong:
  "(\<And>i j. i < r \<Longrightarrow> j < c \<Longrightarrow> f i j = g i j) \<Longrightarrow> fromfunction r c f = fromfunction r c g"
  by (simp add: fromfunction_def)

lemma wf_is_fromfunction:
  assumes "wf_ndarray a"
  shows "a = fromfunction (shape0 a) (shape1 a) (entry a)"
proof -
  have "data a = map (\<lambda>i. map (entry a i) [0..<shape1 a]) [0..<shape0 a]"
    using assms
    by (auto simp: wf_ndarray_def list_all_length entry_def intro!: nth_equalityI)
  then show ?thesis
    by (simp add: fromfunction_def)
qed

lemma transpose_nd_fromfunction:
  "transpose_nd (fromfunction r c f) = fromfunction c r (\<lambda>i j. f j i)"
  by (auto simp: transpose_nd_def intro!: fromfunction_cong)

lemma entry_np_abs:
  "wf_ndarray a \<Longrightarrow> i < shape0 a \<Longrightarrow> j < shape1 a \<Longrightarrow>
     entry (np_abs a) i j = \<bar>entry a i j\<bar>"
  by (simp add: np_abs_def)

lemma make_undirected_square:
  assumes "shape0 mat = shape1 mat"
  shows "make_undirected mat =
    Inr (fromfunction (shape0 mat) (shape0 mat)
          (\<lambda>i j. if length (np_unique mat) = 2
                 then of_int \<lceil>(entry mat i j + entry mat j i) / 2\<rceil>
                 else (entry mat i j + entry mat j i) / 2))"
proof -
  have sym: "np_div (np_add mat (transpose_nd mat)) 2 =
      fromfunction (shape0 mat) (shape0 mat) (\<lambda>i j. (entry mat i j + entry mat j i) / 2)"
    using assms
    by (auto simp: np_div_def np_add_def transpose_nd_def map_nd_fromfunction
        intro!: fromfunction_cong)
  show ?thesis
    using assms
    by (auto simp: make_undirected_def sym np_ceil_def map_nd_fromfunction Let_def
        intro!: fromfunction_cong)
qed

lemma entry_assign_column:
  "i < shape0 a \<Longrightarrow> j < shape1 a \<Longrightarrow>
     entry (assign_column a c idx v) i j = (if j = c \<and> i \<in> set idx then v else entry a i j)"
  by (simp add: assign_column_def)

lemma shape0_knn_mask_step [simp]: "shape0 (knn_mask_step argsort m k i msk) = shape0 msk"
  by (simp add: knn_mask_step_def assign_column_def Let_def)

lemma shape1_knn_mask_step [simp]: "shape1 (knn_mask_step argsort m k i msk) = shape1 msk"
  by (simp add: knn_mask_step_def assign_column_def Let_def)

lemma entry_knn_mask_fold:
  "shape0 msk = n \<Longrightarrow> shape1 msk = n \<Longrightarrow> i < n \<Longrightarrow> j < n \<Longrightarrow>
     entry (fold (knn_mask_step argsort m k) js msk) i j =
       ((j \<in> set js \<and> i \<in> set (last_n (nat (k + 1)) (argsort (column m j)))) \<or> entry msk i j)"
proof (induction js arbitrary: msk)
  case Nil
  then show ?case by simp
next
  case (Cons c js)
  have step: "entry (knn_mask_step argsort m k c msk) i j =
      ((j = c \<and> i \<in> set (last_n (nat (k + 1)) (argsort (column m c)))) \<or> entry msk i j)"
    using Cons.prems by (auto simp: knn_mask_step_def Let_def entry_assign_column)
  show ?case
    using Cons.IH [of "knn_mask_step argsort m k c msk"] Cons.prems step
    by auto
qed

lemma shape_fold_knn_mask_step [simp]:
  "shape0 (fold (knn_mask_step argsort m k) js msk) = shape0 msk"
  "shape1 (fold (knn_mask_step argsort m k) js msk) = shape1 msk"
  by (induction js arbitrary: msk) simp_all

lemma wf_knn_mask_step [simp]: "wf_ndarray (knn_mask_step argsort m k i msk)"
  by (simp add: knn_mask_step_def assign_column_def Let_def)

lemma wf_fold_knn_mask_step:
  "wf_ndarray msk \<Longrightarrow> wf_ndarray (fold (knn_mask_step argsort m k) js msk)"
  by (induction js arbitrary: msk) simp_all

lemma entry_knn_mask:
  "i < n \<Longrightarrow> j < n \<Longrightarrow>
     entry (knn_mask argsort m k n) i j =
       (i \<in> set (last_n (nat (k + 1)) (argsort (column m j))))"
  by (simp add: knn_mask_def entry_knn_mask_fold [where n = n])

lemma shape_knn_mask [simp]:
  "shape0 (knn_mask argsort m k n) = n" "shape1 (knn_mask argsort m k n) = n"
  by (simp_all add: knn_mask_def)

lemma wf_knn_mask [simp]: "wf_ndarray (knn_mask argsort m k n)"
  by (simp add: knn_mask_def wf_fold_knn_mask_step)

lemma knn_graph_directed:
  assumes "shape0 mat = shape1 mat" "0 < k" "k < int (shape0 mat)"
  shows "knn_graph argsort mat k selfloops False =
    Inr (fromfunction (shape0 mat) (shape0 mat)
          (\<lambda>i j. if i \<in> neighbours argsort mat k j \<and> (selfloops \<or> i \<noteq> j)
                 then entry mat i j else 0))"
proof -
  define n where "n = shape0 mat"
  have sh: "shape0 mat = n" "shape1 mat = n"
    using assms(1) by (simp_all add: n_def)
  have adj: "assign_where mat (np_not (knn_mask argsort (np_abs mat) k n)) 0 =
      fromfunction n n (\<lambda>i j. if i \<in> neighbours argsort mat k j then entry mat i j else 0)"
    by (auto simp: assign_where_def np_not_def entry_knn_mask neighbours_def sh
        intro!: fromfunction_cong)
  have diag: "fill_diagonal
        (fromfunction n n (\<lambda>i j. if i \<in> neighbours argsort mat k j then entry mat i j else 0)) 0 =
      fromfunction n n
        (\<lambda>i j. if i \<in> neighbours argsort mat k j \<and> i \<noteq> j then entry mat i j else 0)"
    by (auto simp: fill_diagonal_def intro!: fromfunction_cong)
  have rng: "\<not> (k \<le> 0 \<or> int n \<le> k)"
    using assms(2,3) by (simp add: sh)
  show ?thesis
    using rng by (cases selfloops) (simp_all add: knn_graph_def Let_def sh adj diag)
qed

lemma knn_graph_symmetric:
  assumes "shape0 mat = shape1 mat" "0 < k" "k < int (shape0 mat)"
  shows "knn_graph argsort mat k selfloops True =
    make_undirected (fromfunction (shape0 mat) (shape0 mat)
          (\<lambda>i j. if i \<in> neighbours argsort mat k j \<and> (selfloops \<or> i \<noteq> j)
                 then entry mat i j else 0))"
proof -
  have "knn_graph argsort mat k selfloops True =
      (case knn_graph argsort mat k selfloops False of
         Inl e \<Rightarrow> Inl e | Inr adj \<Rightarrow> make_undirected adj)"
    using assms by (simp add: knn_graph_def Let_def)
  then show ?thesis
    by (simp add: knn_graph_directed [OF assms])
qed

lemma make_undirected_fromfunction_ok:
  "\<exists>s. make_undirected (fromfunction n n f) = Inr s"
  by (simp add: make_undirected_def Let_def)

lemma knn_graph_quantile_directed:
  assumes "shape0 mat = shape1 mat" "0 < k" "k < int (shape0 mat)"
  shows "knn_graph_quantile mat self_loops k False =
    Inr (fromfunction (shape0 mat) (shape0 mat)
      (\<lambda>i j.
         if (entry (np_abs mat) i j
               < np_quantile (column (np_abs mat) i)
                   ((real (shape0 mat) - real_of_int k - 1) / real (shape0 mat))
             \<and> (np_all (np_eq mat (transpose_nd mat))
                \<or> entry (np_abs mat) i j
                    < np_quantile (row (np_abs mat) j)
                        ((real (shape0 mat) - real_of_int k - 1) / real (shape0 mat))))
            \<or> (\<not> self_loops \<and> i = j)
         then 0 else entry (np_abs mat) i j))"
proof -
  define n where "n = shape0 mat"
  have sh: "shape0 mat = n" "shape1 mat = n"
    using assms(1) by (simp_all add: n_def)
  have sha: "shape0 (np_abs mat) = n" "shape1 (np_abs mat) = n"
    by (simp_all add: np_abs_def sh)
  have rng: "\<not> (k \<le> 0 \<or> int n \<le> k)"
    using assms(2,3) by (simp add: sh)
  show ?thesis
    unfolding knn_graph_quantile_def Let_def sh
    using rng
    by (auto simp: assign_where_def fill_diagonal_def quantile_axis0_def quantile_axis1_def sha
        intro!: fromfunction_cong)
qed

lemma knn_graph_quantile_symmetric:
  assumes "shape0 mat = shape1 mat" "0 < k" "k < int (shape0 mat)"
  shows "knn_graph_quantile mat self_loops k True =
    (case knn_graph_quantile mat self_loops k False of
       Inl e \<Rightarrow> Inl e | Inr adj \<Rightarrow> make_undirected adj)"
  using assms by (simp add: knn_graph_quantile_def Let_def)

section \<open>Rejected inputs\<close>

lemma error_kinds_differ: "RangeError \<noteq> ShapeError"
  by (simp add: RangeError_def ShapeError_def)

text \<open>
  Claim C9. On a matrix that is not square (its number of rows differs from its number
  of columns, as for a 3 by 4 matrix), \<open>make_undirected\<close>, \<open>knn_graph\<close> and
  \<open>knn_graph_quantile\<close> each raise the shape error and return no matrix, whatever the
  other arguments are.
\<close>

theorem shape_rejection:
  assumes "shape0 mat \<noteq> shape1 mat"
  shows "make_undirected mat = Inl ShapeError
       \<and> knn_graph argsort mat k selfloops symmetric = Inl ShapeError
       \<and> knn_graph_quantile mat selfloops k symmetric = Inl ShapeError"
  using assms by (simp add: make_undirected_def knn_graph_def knn_graph_quantile_def)

theorem shape_rejection_witness:
  "shape0 example_3x4 = 3 \<and> shape1 example_3x4 = 4 \<and> wf_ndarray example_3x4
     \<and> make_undirected example_3x4 = Inl ShapeError
     \<and> knn_graph argsort_stable example_3x4 2 False True = Inl ShapeError
     \<and> knn_graph_quantile example_3x4 False 2 True = Inl ShapeError"
proof -
  have ne: "shape0 example_3x4 \<noteq> shape1 example_3x4"
    by (simp add: example_3x4_def)
  have wf: "wf_ndarray example_3x4"
    by (simp add: example_3x4_def wf_ndarray_def)
  show ?thesis
    using shape_rejection [OF ne, where argsort = argsort_stable and k = 2
        and selfloops = False and symmetric = True] wf
    by (simp add: example_3x4_def)
qed

text \<open>
  Claim C8. On a square matrix with \<open>n\<close> rows, \<open>knn_graph\<close> and \<open>knn_graph_quantile\<close>
  raise the range error when \<open>k \<le> 0\<close> or \<open>k \<ge> n\<close>, and return a matrix (no error at
  all) when \<open>1 \<le> k \<le> n - 1\<close>. The range error is a different error from the shape
  error.
\<close>

theorem range_rejection:
  assumes "shape0 mat = shape1 mat"
  shows "(k \<le> 0 \<or> int (shape0 mat) \<le> k \<longrightarrow>
            knn_graph argsort mat k selfloops symmetric = Inl RangeError
          \<and> knn_graph_quantile mat selfloops k symmetric = Inl RangeError)
       \<and> (1 \<le> k \<and> k \<le> int (shape0 mat) - 1 \<longrightarrow>
            (\<exists>adj. knn_graph argsort mat k selfloops symmetric = Inr adj)
          \<and> (\<exists>adj. knn_graph_quantile mat selfloops k symmetric = Inr adj))
       \<and> RangeError \<noteq> ShapeError"
proof (intro conjI impI)
  assume "k \<le> 0 \<or> int (shape0 mat) \<le> k"
  then show "knn_graph argsort mat k selfloops symmetric = Inl RangeError"
    and "knn_graph_quantile mat selfloops k symmetric = Inl RangeError"
    using assms by (auto simp: knn_graph_def knn_graph_quantile_def Let_def)
next
  assume "1 \<le> k \<and> k \<le> int (shape0 mat) - 1"
  then have k: "0 < k" "k < int (shape0 mat)"
    by simp_all
  show "\<exists>adj. knn_graph argsort mat k selfloops symmetric = Inr adj"
    by (cases symmetric)
      (simp_all add: knn_graph_directed [OF assms k] knn_graph_symmetric [OF assms k]
        make_undirected_fromfunction_ok)
  show "\<exists>adj. knn_graph_quantile mat selfloops k symmetric = Inr adj"
    by (cases symmetric)
      (simp_all add: knn_graph_quantile_directed [OF assms k]
        knn_graph_quantile_symmetric [OF assms k] make_undirected_fromfunction_ok)
next
  show "RangeError \<noteq> ShapeError"
    by (rule error_kinds_differ)
qed


theorem range_rejection_witness:
  "shape0 example_5x5 = 5 \<and> shape1 example_5x5 = 5
     \<and> knn_graph argsort_stable example_5x5 0 False True = Inl RangeError
     \<and> knn_graph_quantile example_5x5 False 0 True = Inl RangeError
     \<and> knn_graph argsort_stable example_5x5 5 False True = Inl RangeError
     \<and> knn_graph_quantile example_5x5 False 5 True = Inl RangeError
     \<and> (\<exists>adj. knn_graph argsort_stable example_5x5 4 False True = Inr adj)
     \<and> (\<exists>adj. knn_graph_quantile example_5x5 False 4 True = Inr adj)"
proof -
  have sq: "shape0 example_5x5 = shape1 example_5x5"
    by (simp add: example_5x5_def)
  have n: "shape0 example_5x5 = 5" "shape1 example_5x5 = 5"
    by (simp_all add: example_5x5_def)
  note r = range_rejection [OF sq, where argsort = argsort_stable
      and selfloops = False and symmetric = True]
  show ?thesis
    using r [where k = 0] r [where k = 5] r [where k = 4]
    by (simp add: n)
qed

section \<open>The Symmetrizer is symmetric\<close>

text \<open>
  Claim C5. For every square matrix, the matrix that \<open>make_undirected\<close> returns is equal
  to its own transpose. The statement covers both branches, the entry-wise ceiling taken
  when the input has exactly two distinct values and the plain average otherwise.
\<close>

theorem make_undirected_symmetric:
  assumes "shape0 mat = shape1 mat"
  shows "\<exists>s. make_undirected mat = Inr s \<and> transpose_nd s = s"
  by (auto simp: make_undirected_square [OF assms] transpose_nd_fromfunction add.commute
      intro!: fromfunction_cong)

theorem make_undirected_symmetric_witness:
  "shape0 example_binary = shape1 example_binary
     \<and> length (np_unique example_binary) = 2
     \<and> (\<exists>s. make_undirected example_binary = Inr s \<and> transpose_nd s = s)
     \<and> shape0 example_5x5 = shape1 example_5x5
     \<and> length (np_unique example_5x5) = 25
     \<and> (\<exists>s. make_undirected example_5x5 = Inr s \<and> transpose_nd s = s)"
proof -
  have sq: "shape0 example_binary = shape1 example_binary"
    "shape0 example_5x5 = shape1 example_5x5"
    by (simp_all add: example_binary_def example_5x5_def)
  have u: "length (np_unique example_binary) = 2" "length (np_unique example_5x5) = 25"
    by code_simp+
  show ?thesis
    using make_undirected_symmetric [OF sq(1)] make_undirected_symmetric [OF sq(2)] sq u
    by simp
qed

section \<open>Self-loops\<close>

text \<open>
  Claim C7. For every square matrix, every valid \<open>k\<close> and either value of the symmetric
  flag, \<open>knn_graph\<close> and \<open>knn_graph_quantile\<close> called without self-loops return a matrix
  whose diagonal entries are all zero; the zero diagonal survives the symmetrization and
  its ceiling.
\<close>

theorem self_loop_suppression:
  assumes "shape0 mat = shape1 mat" "1 \<le> k" "k \<le> int (shape0 mat) - 1" "i < shape0 mat"
  shows "(\<exists>adj. knn_graph argsort mat k False symmetric = Inr adj
            \<and> shape0 adj = shape0 mat \<and> shape1 adj = shape0 mat \<and> entry adj i i = 0)
       \<and> (\<exists>adj. knn_graph_quantile mat False k symmetric = Inr adj
            \<and> shape0 adj = shape0 mat \<and> shape1 adj = shape0 mat \<and> entry adj i i = 0)"
proof -
  have k: "0 < k" "k < int (shape0 mat)"
    using assms(2,3) by simp_all
  show ?thesis
    using assms(4)
    by (cases symmetric)
      (simp_all add: knn_graph_directed [OF assms(1) k] knn_graph_symmetric [OF assms(1) k]
        knn_graph_quantile_directed [OF assms(1) k]
        knn_graph_quantile_symmetric [OF assms(1) k] make_undirected_square)
qed

theorem self_loop_suppression_witness:
  "shape0 example_5x5 = shape1 example_5x5 \<and> entry example_5x5 3 3 = - 19
     \<and> (\<exists>adj. knn_graph argsort_stable example_5x5 2 False False = Inr adj
           \<and> entry adj 3 3 = 0)
     \<and> (\<exists>adj. knn_graph_quantile example_5x5 False 2 False = Inr adj
           \<and> entry adj 3 3 = 0)
     \<and> shape0 example_binary = shape1 example_binary \<and> entry example_binary 0 1 = 1
     \<and> (\<exists>adj. knn_graph argsort_stable example_binary 1 False True = Inr adj
           \<and> entry adj 2 2 = 0)
     \<and> (\<exists>adj. knn_graph_quantile example_binary False 1 True = Inr adj
           \<and> entry adj 2 2 = 0)"
proof -
  have sq: "shape0 example_5x5 = shape1 example_5x5"
    "shape0 example_binary = shape1 example_binary"
    by (simp_all add: example_binary_def example_5x5_def)
  have k5: "(1::int) \<le> 2" "2 \<le> int (shape0 example_5x5) - 1" "3 < shape0 example_5x5"
    by (simp_all add: example_5x5_def)
  have kb: "(1::int) \<le> 1" "1 \<le> int (shape0 example_binary) - 1" "2 < shape0 example_binary"
    by (simp_all add: example_binary_def)
  have e: "entry example_5x5 3 3 = - 19" "entry example_binary 0 1 = 1"
    by (simp_all add: example_5x5_def example_binary_def entry_def)
  show ?thesis
    using self_loop_suppression [OF sq(1) k5, where argsort = argsort_stable
        and symmetric = False]
      self_loop_suppression [OF sq(2) kb, where argsort = argsort_stable
        and symmetric = True] sq e
    by auto
qed

section \<open>Weights of the kept edges\<close>

text \<open>
  Claim C4. For every square matrix and valid \<open>k\<close>, every entry of the matrix returned by
  \<open>knn_graph\<close> without symmetrization is zero or the entry of the input at the same
  place, sign and magnitude unchanged. An entry survives when its row is among the
  neighbours of its column, which are chosen on the magnitudes, and it is not a removed
  self-loop.
\<close>

theorem knn_graph_keeps_original_weights:
  assumes "shape0 mat = shape1 mat" "1 \<le> k" "k \<le> int (shape0 mat) - 1"
    and "i < shape0 mat" "j < shape0 mat"
  shows "\<exists>adj. knn_graph argsort mat k selfloops False = Inr adj
           \<and> shape0 adj = shape0 mat \<and> shape1 adj = shape0 mat
           \<and> entry adj i j =
               (if i \<in> neighbours argsort mat k j \<and> (selfloops \<or> i \<noteq> j)
                then entry mat i j else 0)
           \<and> (entry adj i j = 0 \<or> entry adj i j = entry mat i j)"
proof -
  have k: "0 < k" "k < int (shape0 mat)"
    using assms(2,3) by simp_all
  show ?thesis
    using assms(4,5) by (simp add: knn_graph_directed [OF assms(1) k])
qed

theorem knn_graph_keeps_original_weights_witness:
  "shape0 example_5x5 = shape1 example_5x5 \<and> entry example_5x5 3 3 = - 19
     \<and> (\<exists>adj. knn_graph argsort_stable example_5x5 2 True False = Inr adj
           \<and> entry adj 3 3 = - 19)
     \<and> (\<exists>adj. knn_graph argsort_stable example_5x5 2 True False = Inr adj
           \<and> entry adj 0 0 = 0)"
proof -
  have sq: "shape0 example_5x5 = shape1 example_5x5"
    by (simp add: example_5x5_def)
  have k: "(1::int) \<le> 2" "2 \<le> int (shape0 example_5x5) - 1"
    by (simp_all add: example_5x5_def)
  have i: "3 < shape0 example_5x5" "0 < shape0 example_5x5"
    by (simp_all add: example_5x5_def)
  have n3: "3 \<in> neighbours argsort_stable example_5x5 2 3"
    by code_simp
  have n0: "0 \<notin> neighbours argsort_stable example_5x5 2 0"
    by code_simp
  have e: "entry example_5x5 3 3 = - 19"
    by (simp add: example_5x5_def entry_def)
  show ?thesis
    using knn_graph_keeps_original_weights [OF sq k i(1) i(1),
        where argsort = argsort_stable and selfloops = True]
      knn_graph_keeps_original_weights [OF sq k i(2) i(2),
        where argsort = argsort_stable and selfloops = True] n3 n0 e sq
    by auto
qed

text \<open>
  Claim C10. For every square matrix and valid \<open>k\<close>, every entry of the matrix returned
  by \<open>knn_graph_quantile\<close> without symmetrization is zero or the absolute value of the
  entry of the input at the same place, so no entry of the output is negative, even
  where the input is. (\<open>knn_graph\<close> keeps the signed entry instead: on \<open>example_5x5\<close> the
  entry \<open>[3, 3]\<close> comes out as \<open>19\<close> here and as \<open>- 19\<close> there.)
\<close>

theorem knn_graph_quantile_magnitudes:
  assumes "wf_ndarray mat" "shape0 mat = shape1 mat" "1 \<le> k" "k \<le> int (shape0 mat) - 1"
    and "i < shape0 mat" "j < shape0 mat"
  shows "\<exists>adj. knn_graph_quantile mat self_loops k False = Inr adj
           \<and> shape0 adj = shape0 mat \<and> shape1 adj = shape0 mat
           \<and> (entry adj i j = 0 \<or> entry adj i j = \<bar>entry mat i j\<bar>)
           \<and> 0 \<le> entry adj i j"
proof -
  have k: "0 < k" "k < int (shape0 mat)"
    using assms(3,4) by simp_all
  have a: "entry (np_abs mat) i j = \<bar>entry mat i j\<bar>"
    using assms by (simp add: entry_np_abs)
  show ?thesis
    using assms(5,6) by (simp add: knn_graph_quantile_directed [OF assms(2) k] a)
qed

theorem knn_graph_quantile_magnitudes_witness:
  "wf_ndarray example_5x5 \<and> shape0 example_5x5 = shape1 example_5x5
     \<and> entry example_5x5 3 3 = - 19
     \<and> knn_graph_quantile example_5x5 True 2 False =
         Inr \<lparr>shape0 = 5, shape1 = 5,
              data = [[0, 0, 0, 0, 0], [6, 0, 0, 0, 10], [11, 12, 13, 14, 15],
                      [16, 17, 18, 19, 20], [21, 22, 23, 24, 25]]\<rparr>
     \<and> (\<exists>adj. knn_graph_quantile example_5x5 True 2 False = Inr adj
           \<and> (entry adj 3 3 = 0 \<or> entry adj 3 3 = 19) \<and> 0 \<le> entry adj 3 3)
     \<and> knn_graph argsort_stable example_5x5 2 True False =
         Inr \<lparr>shape0 = 5, shape1 = 5,
              data = [[0, 0, 0, 0, 0], [0, 0, 0, 0, 0], [11, 12, 13, 14, 15],
                      [16, 17, 18, - 19, 20], [21, 22, 23, 24, 25]]\<rparr>"
proof -
  have wf: "wf_ndarray example_5x5"
    by (simp add: example_5x5_def wf_ndarray_def)
  have sq: "shape0 example_5x5 = shape1 example_5x5"
    by (simp add: example_5x5_def)
  have k: "(1::int) \<le> 2" "2 \<le> int (shape0 example_5x5) - 1"
    by (simp_all add: example_5x5_def)
  have i: "3 < shape0 example_5x5"
    by (simp add: example_5x5_def)
  have e: "entry example_5x5 3 3 = - 19"
    by (simp add: example_5x5_def entry_def)
  have r: "knn_graph_quantile example_5x5 True 2 False =
         Inr \<lparr>shape0 = 5, shape1 = 5,
              data = [[0, 0, 0, 0, 0], [6, 0, 0, 0, 10], [11, 12, 13, 14, 15],
                      [16, 17, 18, 19, 20], [21, 22, 23, 24, 25]]\<rparr>"
    by code_simp
  have d: "knn_graph argsort_stable example_5x5 2 True False =
         Inr \<lparr>shape0 = 5, shape1 = 5,
              data = [[0, 0, 0, 0, 0], [0, 0, 0, 0, 0], [11, 12, 13, 14, 15],
                      [16, 17, 18, - 19, 20], [21, 22, 23, 24, 25]]\<rparr>"
    by code_simp
  show ?thesis
    using knn_graph_quantile_magnitudes [OF wf sq k i i, where self_loops = True] wf sq e r d
    by simp
qed

section \<open>Average or ceiling\<close>

lemma set_concat_data:
  assumes "wf_ndarray a"
  shows "set (concat (data a)) = {entry a i j |i j. i < shape0 a \<and> j < shape1 a}"
proof -
  have "data a = map (\<lambda>i. map (entry a i) [0..<shape1 a]) [0..<shape0 a]"
    using wf_is_fromfunction [OF assms] by (simp add: fromfunction_def) (metis ndarray.select_convs(3))
  then have "set (concat (data a)) =
      set (concat (map (\<lambda>i. map (entry a i) [0..<shape1 a]) [0..<shape0 a]))"
    by simp
  also have "\<dots> = {entry a i j |i j. i < shape0 a \<and> j < shape1 a}"
    by force
  finally show ?thesis .
qed

lemma length_np_unique:
  "length (np_unique a) = card (set (concat (data a)))"
  by (simp add: np_unique_def length_remdups_card_conv)

lemma card_entries:
  assumes "wf_ndarray a"
  shows "card {entry a i j |i j. i < shape0 a \<and> j < shape1 a} = length (np_unique a)"
  by (simp only: length_np_unique set_concat_data [OF assms])

text \<open>
  Claim C1. For every square matrix \<open>M\<close>, \<open>make_undirected\<close> returns \<open>(M + M\<^sup>T) / 2\<close>
  when the number of distinct values of \<open>M\<close> is not 2, and the entry-wise ceiling of
  \<open>(M + M\<^sup>T) / 2\<close> when \<open>M\<close> has exactly 2 distinct values. In particular, for a matrix of
  zeros and ones with \<open>M[0, 1] = 1\<close> and \<open>M[1, 0] = 0\<close>, the entries \<open>[0, 1]\<close> and \<open>[1, 0]\<close>
  of the result are both 1. The number of distinct values is counted on the entries, not
  taken from the code's \<open>np_unique\<close>.
\<close>

theorem make_undirected_average_or_ceiling:
  assumes "wf_ndarray mat" "shape0 mat = shape1 mat"
  shows "make_undirected mat =
      Inr (fromfunction (shape0 mat) (shape0 mat)
            (\<lambda>i j.
               if card {entry mat r c |r c. r < shape0 mat \<and> c < shape0 mat} = 2
               then of_int \<lceil>(entry mat i j + entry mat j i) / 2\<rceil>
               else (entry mat i j + entry mat j i) / 2))
    \<and> (2 \<le> shape0 mat \<and> set (concat (data mat)) \<subseteq> {0, 1}
         \<and> entry mat 0 1 = 1 \<and> entry mat 1 0 = 0 \<longrightarrow>
       (\<exists>s. make_undirected mat = Inr s \<and> entry s 0 1 = 1 \<and> entry s 1 0 = 1))"
proof (intro conjI impI)
  have c: "card {entry mat r c |r c. r < shape0 mat \<and> c < shape0 mat} = length (np_unique mat)"
    using card_entries [OF assms(1)] assms(2) by simp
  show avg: "make_undirected mat =
      Inr (fromfunction (shape0 mat) (shape0 mat)
            (\<lambda>i j.
               if card {entry mat r c |r c. r < shape0 mat \<and> c < shape0 mat} = 2
               then of_int \<lceil>(entry mat i j + entry mat j i) / 2\<rceil>
               else (entry mat i j + entry mat j i) / 2))"
    by (simp add: make_undirected_square [OF assms(2)] c)
  assume b: "2 \<le> shape0 mat \<and> set (concat (data mat)) \<subseteq> {0, 1}
         \<and> entry mat 0 1 = 1 \<and> entry mat 1 0 = 0"
  have "entry mat 0 1 \<in> set (concat (data mat))" "entry mat 1 0 \<in> set (concat (data mat))"
    using b assms(2) unfolding set_concat_data [OF assms(1)] by force+
  then have "set (concat (data mat)) = {0, 1}"
    using b by auto
  then have two: "length (np_unique mat) = 2"
    by (simp add: length_np_unique)
  have half: "\<lceil>(1::real) / 2\<rceil> = 1"
    by (rule ceiling_unique) simp_all
  show "\<exists>s. make_undirected mat = Inr s \<and> entry s 0 1 = 1 \<and> entry s 1 0 = 1"
    using b by (simp add: make_undirected_square [OF assms(2)] two half)
qed

theorem make_undirected_average_or_ceiling_witness:
  "wf_ndarray example_binary \<and> shape0 example_binary = shape1 example_binary
     \<and> 2 \<le> shape0 example_binary \<and> set (concat (data example_binary)) \<subseteq> {0, 1}
     \<and> entry example_binary 0 1 = 1 \<and> entry example_binary 1 0 = 0
     \<and> (\<exists>s. make_undirected example_binary = Inr s \<and> entry s 0 1 = 1 \<and> entry s 1 0 = 1)
     \<and> make_undirected example_binary =
         Inr \<lparr>shape0 = 4, shape1 = 4,
              data = [[0, 1, 0, 1], [1, 0, 1, 0], [0, 1, 0, 1], [1, 0, 1, 0]]\<rparr>
     \<and> wf_ndarray example_5x5 \<and> shape0 example_5x5 = shape1 example_5x5
     \<and> make_undirected example_5x5 =
         Inr (fromfunction 5 5 (\<lambda>i j. (entry example_5x5 i j + entry example_5x5 j i) / 2))"
proof -
  have wf: "wf_ndarray example_binary" "wf_ndarray example_5x5"
    by (simp_all add: example_binary_def example_5x5_def wf_ndarray_def)
  have sq: "shape0 example_binary = shape1 example_binary"
    "shape0 example_5x5 = shape1 example_5x5"
    by (simp_all add: example_binary_def example_5x5_def)
  have b: "2 \<le> shape0 example_binary" "set (concat (data example_binary)) \<subseteq> {0, 1}"
    "entry example_binary 0 1 = 1" "entry example_binary 1 0 = 0"
    by (simp_all add: example_binary_def entry_def)
  have r: "make_undirected example_binary =
         Inr \<lparr>shape0 = 4, shape1 = 4,
              data = [[0, 1, 0, 1], [1, 0, 1, 0], [0, 1, 0, 1], [1, 0, 1, 0]]\<rparr>"
    by code_simp
  have n5: "shape0 example_5x5 = 5"
    by (simp add: example_5x5_def)
  have "length (np_unique example_5x5) = 25"
    by code_simp
  then have c: "card {entry example_5x5 r c |r c. r < 5 \<and> c < 5} \<noteq> 2"
    using card_entries [OF wf(2)] by (simp add: example_5x5_def)
  from make_undirected_average_or_ceiling [OF wf(1) sq(1)] b
  have t1: "\<exists>s. make_undirected example_binary = Inr s \<and> entry s 0 1 = 1 \<and> entry s 1 0 = 1"
    by blast
  from make_undirected_average_or_ceiling [OF wf(2) sq(2)] c
  have t2: "make_undirected example_5x5 =
      Inr (fromfunction 5 5 (\<lambda>i j. (entry example_5x5 i j + entry example_5x5 j i) / 2))"
    by (simp add: n5)
  show ?thesis
    using wf sq b r t1 t2 by blast
qed

section \<open>Exact degree of the Degree-Rank builder\<close>

lemma valid_argsort_stable: "valid_argsort argsort_stable"
  by (auto simp: valid_argsort_def argsort_stable_def)

lemma length_valid_argsort:
  assumes "valid_argsort argsort"
  shows "length (argsort xs) = length xs"
proof -
  have "distinct (argsort xs)" "set (argsort xs) = {..<length xs}"
    using assms by (simp_all add: valid_argsort_def)
  then show ?thesis
    using distinct_card [of "argsort xs"] by simp
qed

lemma neighbours_valid:
  assumes "valid_argsort argsort" "0 \<le> k" "nat (k + 1) \<le> shape0 mat"
  shows "card (neighbours argsort mat k j) = nat (k + 1)"
    and "neighbours argsort mat k j \<subseteq> {..<shape0 mat}"
proof -
  let ?xs = "argsort (column (np_abs mat) j)"
  have len: "length ?xs = shape0 mat"
    by (simp add: length_valid_argsort [OF assms(1)] column_def np_abs_def)
  have d: "distinct ?xs" and s: "set ?xs = {..<shape0 mat}"
    using assms(1) by (simp_all add: valid_argsort_def column_def np_abs_def)
  have "distinct (last_n (nat (k + 1)) ?xs)"
    using d by (simp add: last_n_def)
  moreover have "length (last_n (nat (k + 1)) ?xs) = nat (k + 1)"
    using assms(3) by (simp add: last_n_def len)
  ultimately show "card (neighbours argsort mat k j) = nat (k + 1)"
    by (simp add: neighbours_def distinct_card)
  show "neighbours argsort mat k j \<subseteq> {..<shape0 mat}"
    using set_drop_subset [of "length ?xs - nat (k + 1)" ?xs] s
    by (simp add: neighbours_def last_n_def)
qed

lemma column_fromfunction:
  "j < c \<Longrightarrow> column (fromfunction r c f) j = map (\<lambda>i. f i j) [0..<r]"
  by (simp add: column_def)

lemma count_members_upt:
  assumes "S \<subseteq> {..<n}"
  shows "length (filter (\<lambda>i. i \<in> S) [0..<n]) = card S"
proof -
  have "length (filter (\<lambda>i. i \<in> S) [0..<n]) = card ({i. i \<in> S} \<inter> set [0..<n])"
    by (rule distinct_length_filter) simp
  also have "{i. i \<in> S} \<inter> set [0..<n] = S"
    using assms by auto
  finally show ?thesis .
qed

text \<open>
  Claim C2. For every square matrix with \<open>n\<close> rows and no zero entry and every \<open>k\<close> with
  \<open>1 \<le> k \<le> n - 1\<close>, \<open>knn_graph\<close> with self-loops kept and without symmetrization returns a
  matrix in which every column has exactly \<open>k + 1\<close> nonzero entries. This holds for any
  argsort routine that returns a permutation of the indices, whatever it does with ties.
\<close>

theorem knn_graph_exact_degree:
  assumes "valid_argsort argsort" "wf_ndarray mat" "shape0 mat = shape1 mat"
    and "1 \<le> k" "k \<le> int (shape0 mat) - 1"
    and "0 \<notin> set (concat (data mat))"
    and "j < shape0 mat"
  shows "\<exists>adj. knn_graph argsort mat k True False = Inr adj
           \<and> shape0 adj = shape0 mat \<and> shape1 adj = shape0 mat
           \<and> length (filter (\<lambda>x. x \<noteq> 0) (column adj j)) = nat k + 1"
proof -
  let ?n = "shape0 mat"
  let ?N = "neighbours argsort mat k j"
  have k: "0 < k" "k < int ?n"
    using assms(4,5) by simp_all
  have nz: "entry mat i j \<noteq> 0" if "i < ?n" for i
  proof -
    have "entry mat i j \<in> set (concat (data mat))"
      unfolding set_concat_data [OF assms(2)] using that assms(3,7) by force
    then show ?thesis
      using assms(6) by metis
  qed
  have N: "card ?N = nat (k + 1)" "?N \<subseteq> {..<?n}"
    using neighbours_valid [OF assms(1), of k mat j] k by simp_all
  have "filter (\<lambda>i. (if i \<in> ?N then entry mat i j else 0) \<noteq> 0) [0..<?n] =
      filter (\<lambda>i. i \<in> ?N) [0..<?n]"
    by (rule filter_cong) (auto simp: nz)
  then have "length (filter (\<lambda>i. (if i \<in> ?N then entry mat i j else 0) \<noteq> 0) [0..<?n]) =
      nat k + 1"
    using count_members_upt [OF N(2)] N(1) k by (simp add: nat_add_distrib)
  then show ?thesis
    using assms(7)
    by (simp add: knn_graph_directed [OF assms(3) k] column_fromfunction filter_map comp_def)
qed

theorem knn_graph_exact_degree_witness:
  "valid_argsort argsort_stable \<and> wf_ndarray example_5x5
     \<and> shape0 example_5x5 = shape1 example_5x5
     \<and> 0 \<notin> set (concat (data example_5x5))
     \<and> (\<exists>adj. knn_graph argsort_stable example_5x5 2 True False = Inr adj
           \<and> length (filter (\<lambda>x. x \<noteq> 0) (column adj 3)) = 3)
     \<and> knn_graph argsort_stable example_5x5 2 True False =
         Inr \<lparr>shape0 = 5, shape1 = 5,
              data = [[0, 0, 0, 0, 0], [0, 0, 0, 0, 0], [11, 12, 13, 14, 15],
                      [16, 17, 18, - 19, 20], [21, 22, 23, 24, 25]]\<rparr>"
proof -
  have wf: "wf_ndarray example_5x5"
    by (simp add: example_5x5_def wf_ndarray_def)
  have sq: "shape0 example_5x5 = shape1 example_5x5"
    by (simp add: example_5x5_def)
  have k: "(1::int) \<le> 2" "2 \<le> int (shape0 example_5x5) - 1"
    by (simp_all add: example_5x5_def)
  have nz: "0 \<notin> set (concat (data example_5x5))"
    by (simp add: example_5x5_def)
  have j: "3 < shape0 example_5x5"
    by (simp add: example_5x5_def)
  have r: "knn_graph argsort_stable example_5x5 2 True False =
         Inr \<lparr>shape0 = 5, shape1 = 5,
              data = [[0, 0, 0, 0, 0], [0, 0, 0, 0, 0], [11, 12, 13, 14, 15],
                      [16, 17, 18, - 19, 20], [21, 22, 23, 24, 25]]\<rparr>"
    by code_simp
  show ?thesis
    using knn_graph_exact_degree [OF valid_argsort_stable wf sq k nz j]
      valid_argsort_stable wf sq nz r
    by simp
qed

section \<open>The threshold of the Quantile builder\<close>

text \<open>
  Claim C3. For a square matrix \<open>M\<close> equal to its transpose and a valid \<open>k\<close>,
  \<open>knn_graph_quantile\<close> with self-loops kept and without symmetrization should set to zero
  exactly the entries \<open>[i, j]\<close> whose magnitude is strictly below the \<open>(n - k - 1) / n\<close>
  quantile of column \<open>j\<close> of \<open>|M|\<close>, the entry's own column.

  The code does not. \<open>quantile_h\<close> holds one quantile per column, and
  \<open>quantile_h[:, np.newaxis]\<close> lays them out along the rows, so entry \<open>[i, j]\<close> meets the
  quantile of column \<open>i\<close>. On the symmetric matrix \<open>example_sym\<close> with \<open>k = 1\<close> the quantile
  is taken at \<open>1 / 3\<close>. Entry \<open>[0, 1]\<close> has magnitude 2, strictly below \<open>22 / 3\<close>, the
  quantile of its column 1, and is kept; entry \<open>[1, 0]\<close> has magnitude 2, not below
  \<open>5 / 3\<close>, the quantile of its column 0, and is set to zero. The result is the transpose
  of the matrix that \<open>knn_graph\<close>, which selects column by column, returns on the same
  input.
\<close>

theorem knn_graph_quantile_threshold_of_other_column:
  "transpose_nd example_sym = example_sym
     \<and> knn_graph_quantile example_sym True 1 False = Inr example_sym_quantile
     \<and> np_quantile (column (np_abs example_sym) 1) ((3 - 1 - 1) / 3) = 22 / 3
     \<and> \<bar>entry example_sym 0 1\<bar> < np_quantile (column (np_abs example_sym) 1) ((3 - 1 - 1) / 3)
     \<and> entry example_sym_quantile 0 1 = 2
     \<and> np_quantile (column (np_abs example_sym) 0) ((3 - 1 - 1) / 3) = 5 / 3
     \<and> \<not> \<bar>entry example_sym 1 0\<bar> < np_quantile (column (np_abs example_sym) 0) ((3 - 1 - 1) / 3)
     \<and> entry example_sym 1 0 = 2
     \<and> entry example_sym_quantile 1 0 = 0
     \<and> knn_graph argsort_stable example_sym 1 True False = Inr example_sym_by_column
     \<and> example_sym_quantile = transpose_nd example_sym_by_column
     \<and> example_sym_quantile \<noteq> example_sym_by_column"
  by code_simp

end
